theory Spec2Isabelle
  imports Main
begin

section \<open>The Ouster lifecycle driver (ros2_ouster/src/ouster_driver.cpp)\<close>

text \<open>
  The driver is a lifecycle node. Its callbacks are methods that mutate the members of
  one object, so the model passes a record of those members and of the part of the
  node they touch (parameters, log, outputs). A C++ exception, a call through a null
  smart pointer and \<^verbatim>\<open>exit\<close> are outcomes that keep the state reached so far.
\<close>

subsection \<open>Outcomes\<close>

datatype exn =
    ParameterAlreadyDeclared string
  | ParameterNotDeclared string
  | ParameterTypeException
  | ConnectionError
  | NullPointer

datatype 's outcome = Returns 's | Throws exn 's | Exits int 's

fun final :: "'s outcome \<Rightarrow> 's" where
  "final (Returns s) = s"
| "final (Throws e s) = s"
| "final (Exits c s) = s"

fun returns :: "'s outcome \<Rightarrow> bool" where
  "returns (Returns s) = True"
| "returns (Throws e s) = False"
| "returns (Exits c s) = False"

fun raised :: "'s outcome \<Rightarrow> exn option" where
  "raised (Returns s) = None"
| "raised (Throws e s) = Some e"
| "raised (Exits c s) = None"

fun exited :: "'s outcome \<Rightarrow> int option" where
  "exited (Returns s) = None"
| "exited (Throws e s) = None"
| "exited (Exits c s) = Some c"

text \<open>Sequencing of statements: the next statement runs only after a normal return.\<close>

fun then_do :: "'s outcome \<Rightarrow> ('s \<Rightarrow> 's outcome) \<Rightarrow> 's outcome" where
  "then_do (Returns s) k = k s"
| "then_do (Throws e s) k = Throws e s"
| "then_do (Exits c s) k = Exits c s"

text \<open>Sequencing of an expression that may throw before the state is touched.\<close>

fun and_then :: "exn + 'a \<Rightarrow> ('a \<Rightarrow> exn + 'b) \<Rightarrow> exn + 'b" where
  "and_then (Inl e) k = Inl e"
| "and_then (Inr v) k = k v"

fun reading :: "'s \<Rightarrow> exn + 'a \<Rightarrow> ('a \<Rightarrow> 's outcome) \<Rightarrow> 's outcome" where
  "reading s (Inl e) k = Throws e s"
| "reading s (Inr v) k = k v"

subsection \<open>Data\<close>

datatype pvalue = NotSet | PInt int | PString string

datatype severity = INFO | FATAL

record node_options =
  parameter_overrides :: "string \<rightharpoonup> pvalue"
  allow_undeclared_parameters :: bool
  automatically_declare_parameters_from_overrides :: bool

record configuration =
  lidar_ip :: string
  computer_ip :: string
  imu_port :: int
  lidar_port :: int
  lidar_mode :: string

text \<open>A rigid transform is carried from the metadata to the message unchanged; its
  entries are never computed with, so they are kept as an opaque list.\<close>

type_synonym transform = "int list"

record metadata =
  imu_to_sensor_transform :: transform
  lidar_to_sensor_transform :: transform

record transform_stamped =
  transform :: transform
  frame_id :: string
  child_frame_id :: string
  stamp :: nat

datatype qos = SensorDataQoS

record publisher =
  topic :: string
  quality :: qos
  enabled :: bool

datatype broadcaster = StaticTransformBroadcaster

datatype sensor = Unconnected | Connected configuration metadata

datatype lifecycle_state = Unconfigured | Inactive | Active | Finalized | ErrorProcessing

datatype product = RangeImage | IntensityImage | NoiseImage | ImuMessage | PointCloud

record get_metadata_response =
  metadata_payload :: "metadata option"

text \<open>
  The members of \<^verbatim>\<open>OusterDriver\<close> (the seven smart pointers of the publishers, the
  sensor and the broadcaster, the two services, the timer), the node's declared
  parameters and log, and the two output traces: the vectors handed to
  \<^verbatim>\<open>sendTransform\<close> and the data products handed to the five publishers.
\<close>

record driver =
  options :: node_options
  parameters :: "string \<rightharpoonup> pvalue"
  log :: "(severity \<times> string) list"
  lifecycle :: lifecycle_state
  range_im_pub :: "publisher option"
  intensity_im_pub :: "publisher option"
  noise_im_pub :: "publisher option"
  imu_pub :: "publisher option"
  pc_pub :: "publisher option"
  reset_srv :: "string option"
  metadata_srv :: "string option"
  sensor :: "sensor option"
  tf_b :: "broadcaster option"
  process_timer :: "nat option"
  tf_sent :: "transform_stamped list list"
  published :: "product list"

text \<open>What the driver does not own: the device answering a handshake (no answer is a
  connection failure) and the node clock read by \<^verbatim>\<open>now()\<close>.\<close>

record world =
  handshake :: "configuration \<Rightarrow> metadata option"
  now :: nat

subsection \<open>The node's parameter interface (rclcpp)\<close>

text \<open>
  \<^verbatim>\<open>declare_parameter(name, default)\<close> throws when the name is already declared;
  otherwise the parameter takes its override if the node options carry one, else the
  default, which for the one-argument form is the unset value. Declaring an unset
  parameter is not an error.
\<close>

definition initial_value :: "driver \<Rightarrow> string \<Rightarrow> pvalue \<Rightarrow> pvalue" where
  "initial_value d name dflt =
     (case parameter_overrides (options d) name of Some v \<Rightarrow> v | None \<Rightarrow> dflt)"

definition declare_parameter :: "driver \<Rightarrow> string \<Rightarrow> pvalue \<Rightarrow> driver outcome" where
  "declare_parameter d name dflt =
     (case parameters d name of
        Some v \<Rightarrow> Throws (ParameterAlreadyDeclared name) d
      | None \<Rightarrow>
          Returns (d\<lparr>parameters := (parameters d)(name \<mapsto> initial_value d name dflt)\<rparr>))"

fun same_type :: "pvalue \<Rightarrow> pvalue \<Rightarrow> bool" where
  "same_type NotSet NotSet = True"
| "same_type (PInt a) (PInt b) = True"
| "same_type (PString a) (PString b) = True"
| "same_type a b = False"

text \<open>The form with a typed default returns the declared value as that type, which
  throws after the declaration when an override has another type.\<close>

definition declare_parameter_typed :: "driver \<Rightarrow> string \<Rightarrow> pvalue \<Rightarrow> driver outcome" where
  "declare_parameter_typed d name dflt =
     then_do (declare_parameter d name dflt) (\<lambda>d'.
       if same_type (initial_value d name dflt) dflt then Returns d'
       else Throws ParameterTypeException d')"

text \<open>
  \<^verbatim>\<open>get_parameter(name)\<close> finds a parameter that is declared and set; for any other
  name it throws, or hands back an unset parameter when the node allows undeclared
  parameters. \<^verbatim>\<open>as_string\<close> and \<^verbatim>\<open>as_int\<close> throw on a value of another type.
\<close>

definition get_parameter :: "driver \<Rightarrow> string \<Rightarrow> exn + pvalue" where
  "get_parameter d name =
     (let missing = (if allow_undeclared_parameters (options d)
                     then Inr NotSet else Inl (ParameterNotDeclared name))
      in case parameters d name of
           None \<Rightarrow> missing
         | Some NotSet \<Rightarrow> missing
         | Some v \<Rightarrow> Inr v)"

fun as_string :: "pvalue \<Rightarrow> exn + string" where
  "as_string (PString s) = Inr s"
| "as_string v = Inl ParameterTypeException"

fun as_int :: "pvalue \<Rightarrow> exn + int" where
  "as_int (PInt i) = Inr i"
| "as_int v = Inl ParameterTypeException"

subsection \<open>Collaborators declared outside this file\<close>

text \<open>Modelled from the spec: the constructor of the lifecycle base class
  \<^verbatim>\<open>LifecycleInterface\<close>, which is defined outside \<^verbatim>\<open>ouster_driver.cpp\<close>. It builds
  the node, Unconfigured and with every member empty. A node built with automatic
  declaration starts with its overrides declared.\<close>

definition LifecycleInterface :: "string \<Rightarrow> node_options \<Rightarrow> driver" where
  "LifecycleInterface node_name opts =
     \<lparr>options = opts,
      parameters = (if automatically_declare_parameters_from_overrides opts
                    then parameter_overrides opts else Map.empty),
      log = [], lifecycle = Unconfigured,
      range_im_pub = None, intensity_im_pub = None, noise_im_pub = None,
      imu_pub = None, pc_pub = None, reset_srv = None, metadata_srv = None,
      sensor = None, tf_b = None, process_timer = None,
      tf_sent = [], published = []\<rparr>"

text \<open>Modelled from the spec: \<^verbatim>\<open>isActive()\<close> of the lifecycle base class, defined
  outside \<^verbatim>\<open>ouster_driver.cpp\<close>. It tells whether the lifecycle state is Active.\<close>

definition isActive :: "driver \<Rightarrow> bool" where
  "isActive d = (lifecycle d = Active)"

text \<open>Modelled from the spec: \<^verbatim>\<open>configure\<close> of the sensor handle
  \<^verbatim>\<open>SensorInterface\<close>, defined outside \<^verbatim>\<open>ouster_driver.cpp\<close>. Connecting fails with a
  connection error when the handshake fails; a handshake produces the metadata.\<close>

definition sensor_configure :: "world \<Rightarrow> configuration \<Rightarrow> sensor \<Rightarrow> exn + sensor" where
  "sensor_configure w cfg s =
     (case handshake w cfg of None \<Rightarrow> Inl ConnectionError | Some m \<Rightarrow> Inr (Connected cfg m))"

text \<open>Modelled from the spec: \<^verbatim>\<open>reset\<close> of the sensor handle, defined outside
  \<^verbatim>\<open>ouster_driver.cpp\<close>. It redoes the handshake; a failed reset reports the error and
  leaves the previous metadata and connection untouched.\<close>

definition sensor_reset :: "world \<Rightarrow> configuration \<Rightarrow> sensor \<Rightarrow> exn + sensor" where
  "sensor_reset w cfg s =
     (case handshake w cfg of None \<Rightarrow> Inl ConnectionError | Some m \<Rightarrow> Inr (Connected cfg m))"

text \<open>Modelled from the spec: \<^verbatim>\<open>getMetadata\<close> of the sensor handle, defined outside
  \<^verbatim>\<open>ouster_driver.cpp\<close>. It reads the metadata of the last completed handshake; a
  handle that never completed one has none to give.\<close>

fun sensor_getMetadata :: "sensor \<Rightarrow> exn + metadata" where
  "sensor_getMetadata (Connected cfg m) = Inr m"
| "sensor_getMetadata Unconnected = Inl ConnectionError"

text \<open>Modelled from the spec: the conversion \<^verbatim>\<open>toMsg\<close> of a transform, defined
  outside \<^verbatim>\<open>ouster_driver.cpp\<close>. The message holds the four arguments: the transform,
  the frame, the child frame and the time.\<close>

definition toMsg :: "transform \<Rightarrow> string \<Rightarrow> string \<Rightarrow> nat \<Rightarrow> transform_stamped" where
  "toMsg t frame child_frame time =
     \<lparr>transform = t, frame_id = frame, child_frame_id = child_frame, stamp = time\<rparr>"

text \<open>Modelled from the spec: the conversion \<^verbatim>\<open>toMsg\<close> of the metadata, defined
  outside \<^verbatim>\<open>ouster_driver.cpp\<close>. The message is a snapshot copy of the metadata.\<close>

definition toMsg_metadata :: "metadata \<Rightarrow> metadata option" where
  "toMsg_metadata m = Some m"

text \<open>Lifecycle publishers are created disabled; activation enables them.\<close>

definition create_publisher :: "string \<Rightarrow> qos \<Rightarrow> publisher" where
  "create_publisher name q = \<lparr>topic = name, quality = q, enabled = False\<rparr>"

definition on_activate :: "publisher \<Rightarrow> publisher" where
  "on_activate p = p\<lparr>enabled := True\<rparr>"

definition on_deactivate :: "publisher \<Rightarrow> publisher" where
  "on_deactivate p = p\<lparr>enabled := False\<rparr>"

text \<open>A member call through a smart pointer: a null pointer has no object to call.\<close>

definition call_pub ::
  "(driver \<Rightarrow> publisher option) \<Rightarrow> ((publisher option \<Rightarrow> publisher option) \<Rightarrow> driver \<Rightarrow> driver)
   \<Rightarrow> (publisher \<Rightarrow> publisher) \<Rightarrow> driver \<Rightarrow> driver outcome" where
  "call_pub member member_update f d =
     (case member d of
        None \<Rightarrow> Throws NullPointer d
      | Some p \<Rightarrow> Returns (member_update (\<lambda>_. Some (f p)) d))"

subsection \<open>The driver\<close>

text \<open>The constructor (lines 33-52): the two addresses are declared without a default
  inside a \<^verbatim>\<open>try\<close> whose handler logs the fatal message and exits with status -1; the
  six other parameters are declared with their defaults outside it.\<close>

definition fatal_message :: string where
  "fatal_message = ''Failed to get lidar or IMU IP address or hostname. An IP address for both are required!''"

definition OusterDriver :: "node_options \<Rightarrow> driver outcome" where
  "OusterDriver opts =
     (case then_do (declare_parameter (LifecycleInterface ''OusterDriver'' opts) ''lidar_ip'' NotSet)
             (\<lambda>d. declare_parameter d ''computer_ip'' NotSet) of
        Throws e d \<Rightarrow> Exits (- 1) (d\<lparr>log := log d @ [(FATAL, fatal_message)]\<rparr>)
      | Exits c d \<Rightarrow> Exits c d
      | Returns d \<Rightarrow>
          then_do (declare_parameter_typed d ''imu_port'' (PInt 7503)) (\<lambda>d.
          then_do (declare_parameter_typed d ''lidar_port'' (PInt 7502)) (\<lambda>d.
          then_do (declare_parameter_typed d ''lidar_mode'' (PString ''512x10'')) (\<lambda>d.
          then_do (declare_parameter_typed d ''sensor_frame'' (PString ''laser_sensor_frame'')) (\<lambda>d.
          then_do (declare_parameter_typed d ''laser_frame'' (PString ''laser_data_frame'')) (\<lambda>d.
          declare_parameter_typed d ''imu_frame'' (PString ''imu_data_frame'')))))))"

text \<open>\<^verbatim>\<open>broadcastStaticTransforms\<close> (lines 136-151): three parameter reads, then, under
  the test of the broadcaster handle, the metadata read and one \<^verbatim>\<open>sendTransform\<close> of a
  vector of two messages, the IMU one first.\<close>

definition broadcastStaticTransforms :: "world \<Rightarrow> driver \<Rightarrow> driver outcome" where
  "broadcastStaticTransforms w d =
     reading d (and_then (get_parameter d ''laser_sensor_frame'') as_string) (\<lambda>laser_sensor_frame.
     reading d (and_then (get_parameter d ''laser_data_frame'') as_string) (\<lambda>laser_data_frame.
     reading d (and_then (get_parameter d ''imu_data_frame'') as_string) (\<lambda>imu_data_frame.
       (case tf_b d of
          None \<Rightarrow> Returns d
        | Some b \<Rightarrow>
            (case sensor d of
               None \<Rightarrow> Throws NullPointer d
             | Some s \<Rightarrow>
                 reading d (sensor_getMetadata s) (\<lambda>mdata.
                   Returns (d\<lparr>tf_sent := tf_sent d @
                     [[toMsg (imu_to_sensor_transform mdata) laser_sensor_frame imu_data_frame (now w),
                       toMsg (lidar_to_sensor_transform mdata) laser_sensor_frame laser_data_frame (now w)]]\<rparr>)))))))"

text \<open>\<^verbatim>\<open>onConfigure\<close> (lines 58-92): five parameter reads into the configuration, two
  log lines, the five publishers and two services, the sensor handle and its
  connection, the broadcaster, the announcement.\<close>

definition onConfigure :: "world \<Rightarrow> driver \<Rightarrow> driver outcome" where
  "onConfigure w d =
     reading d (and_then (get_parameter d ''lidar_ip'') as_string) (\<lambda>ip.
     reading d (and_then (get_parameter d ''computer_ip'') as_string) (\<lambda>cip.
     reading d (and_then (get_parameter d ''imu_port'') as_int) (\<lambda>iport.
     reading d (and_then (get_parameter d ''lidar_port'') as_int) (\<lambda>lport.
     reading d (and_then (get_parameter d ''lidar_mode'') as_string) (\<lambda>mode.
       (let lidar_config = \<lparr>lidar_ip = ip, computer_ip = cip, imu_port = iport,
                            lidar_port = lport, lidar_mode = mode\<rparr>;
            d1 = d\<lparr>log := log d @
                   [(INFO, ''Connecting to sensor at '' @ ip @ ''.''),
                    (INFO, ''Broadcasting data from sensor to '' @ cip @ ''.'')]\<rparr>;
            d2 = d1\<lparr>range_im_pub := Some (create_publisher ''range_image'' SensorDataQoS),
                    intensity_im_pub := Some (create_publisher ''intensity_image'' SensorDataQoS),
                    noise_im_pub := Some (create_publisher ''noise_image'' SensorDataQoS),
                    imu_pub := Some (create_publisher ''imu'' SensorDataQoS),
                    pc_pub := Some (create_publisher ''points'' SensorDataQoS),
                    reset_srv := Some ''reset'',
                    metadata_srv := Some ''get_metadata''\<rparr>;
            d3 = d2\<lparr>sensor := Some Unconnected\<rparr>
        in reading d3 (sensor_configure w lidar_config Unconnected) (\<lambda>s.
             broadcastStaticTransforms w
               (d3\<lparr>sensor := Some s, tf_b := Some StaticTransformBroadcaster\<rparr>))))))))"

text \<open>\<^verbatim>\<open>onActivate\<close> (lines 94-105) and \<^verbatim>\<open>onDeactivate\<close> (lines 111-119) call the five
  publishers in the order range, intensity, noise, point cloud, IMU, then create or
  reset the timer; \<^verbatim>\<open>onCleanup\<close> (lines 121-130) resets seven handles; \<^verbatim>\<open>onError\<close> and
  \<^verbatim>\<open>onShutdown\<close> have empty bodies.\<close>

definition create_wall_timer :: "nat \<Rightarrow> nat option" where
  "create_wall_timer period_ns = Some period_ns"

definition onActivate :: "driver \<Rightarrow> driver outcome" where
  "onActivate d =
     then_do (call_pub range_im_pub range_im_pub_update on_activate d) (\<lambda>d.
     then_do (call_pub intensity_im_pub intensity_im_pub_update on_activate d) (\<lambda>d.
     then_do (call_pub noise_im_pub noise_im_pub_update on_activate d) (\<lambda>d.
     then_do (call_pub pc_pub pc_pub_update on_activate d) (\<lambda>d.
     then_do (call_pub imu_pub imu_pub_update on_activate d) (\<lambda>d.
       Returns (d\<lparr>process_timer := create_wall_timer 781250\<rparr>))))))"

definition onError :: "driver \<Rightarrow> driver outcome" where
  "onError d = Returns d"

definition onDeactivate :: "driver \<Rightarrow> driver outcome" where
  "onDeactivate d =
     then_do (call_pub range_im_pub range_im_pub_update on_deactivate d) (\<lambda>d.
     then_do (call_pub intensity_im_pub intensity_im_pub_update on_deactivate d) (\<lambda>d.
     then_do (call_pub noise_im_pub noise_im_pub_update on_deactivate d) (\<lambda>d.
     then_do (call_pub pc_pub pc_pub_update on_deactivate d) (\<lambda>d.
     then_do (call_pub imu_pub imu_pub_update on_deactivate d) (\<lambda>d.
       Returns (d\<lparr>process_timer := None\<rparr>))))))"

definition onCleanup :: "driver \<Rightarrow> driver outcome" where
  "onCleanup d =
     Returns (d\<lparr>range_im_pub := None, intensity_im_pub := None, noise_im_pub := None,
                pc_pub := None, imu_pub := None, sensor := None, tf_b := None\<rparr>)"

definition onShutdown :: "driver \<Rightarrow> driver outcome" where
  "onShutdown d = Returns d"

text \<open>The body of \<^verbatim>\<open>processData\<close> is a comment: the timer callback does nothing.\<close>

definition processData :: "driver \<Rightarrow> driver" where
  "processData d = d"

text \<open>The services (lines 166-195): both return at once unless the node is active.\<close>

definition resetService :: "world \<Rightarrow> driver \<Rightarrow> unit \<Rightarrow> unit \<Rightarrow> (driver \<times> unit) outcome" where
  "resetService w d request response =
     (if \<not> isActive d then Returns (d, response)
      else
        reading (d, response) (and_then (get_parameter d ''lidar_ip'') as_string) (\<lambda>ip.
        reading (d, response) (and_then (get_parameter d ''computer_ip'') as_string) (\<lambda>cip.
        reading (d, response) (and_then (get_parameter d ''imu_port'') as_int) (\<lambda>iport.
        reading (d, response) (and_then (get_parameter d ''lidar_port'') as_int) (\<lambda>lport.
        reading (d, response) (and_then (get_parameter d ''lidar_mode'') as_string) (\<lambda>mode.
          (case sensor d of
             None \<Rightarrow> Throws NullPointer (d, response)
           | Some s \<Rightarrow>
               reading (d, response)
                 (sensor_reset w \<lparr>lidar_ip = ip, computer_ip = cip, imu_port = iport,
                                  lidar_port = lport, lidar_mode = mode\<rparr> s)
                 (\<lambda>s'. Returns (d\<lparr>sensor := Some s'\<rparr>, response)))))))))"

definition getMetadata ::
  "driver \<Rightarrow> unit \<Rightarrow> get_metadata_response \<Rightarrow> (driver \<times> get_metadata_response) outcome" where
  "getMetadata d request response =
     (if \<not> isActive d then Returns (d, response)
      else
        (case sensor d of
           None \<Rightarrow> Throws NullPointer (d, response)
         | Some s \<Rightarrow>
             reading (d, response) (sensor_getMetadata s) (\<lambda>m.
               Returns (d, response\<lparr>metadata_payload := toMsg_metadata m\<rparr>))))"

subsection \<open>Observations used by the properties\<close>

definition armed :: "publisher option \<Rightarrow> bool" where
  "armed p = (case p of None \<Rightarrow> False | Some q \<Rightarrow> enabled q)"

definition disarmed :: "publisher option \<Rightarrow> bool" where
  "disarmed p = (case p of None \<Rightarrow> False | Some q \<Rightarrow> \<not> enabled q)"

text \<open>The metadata lives in the connected sensor handle and nowhere else.\<close>

definition held_metadata :: "driver \<Rightarrow> metadata option" where
  "held_metadata d =
     (case sensor d of None \<Rightarrow> None | Some Unconnected \<Rightarrow> None | Some (Connected cfg m) \<Rightarrow> Some m)"

text \<open>The resources a configured driver holds: the five publishers, the sensor
  connection (with its metadata) and the transform broadcaster.\<close>

definition resources ::
  "driver \<Rightarrow> publisher option \<times> publisher option \<times> publisher option \<times> publisher option
     \<times> publisher option \<times> sensor option \<times> broadcaster option" where
  "resources d = (range_im_pub d, intensity_im_pub d, noise_im_pub d, imu_pub d, pc_pub d,
                  sensor d, tf_b d)"

subsection \<open>Concrete inputs\<close>

text \<open>Node options as \<^verbatim>\<open>rclcpp::NodeOptions()\<close> builds them, and the same with the two
  addresses given as parameter overrides.\<close>

definition default_options :: node_options where
  "default_options =
     \<lparr>parameter_overrides = Map.empty, allow_undeclared_parameters = False,
      automatically_declare_parameters_from_overrides = False\<rparr>"

definition launch_options :: node_options where
  "launch_options =
     \<lparr>parameter_overrides =
        [''lidar_ip'' \<mapsto> PString ''10.5.5.87'', ''computer_ip'' \<mapsto> PString ''10.5.5.1''],
      allow_undeclared_parameters = False,
      automatically_declare_parameters_from_overrides = False\<rparr>"

definition example_metadata :: metadata where
  "example_metadata =
     \<lparr>imu_to_sensor_transform = [1, 0, 0, 6], lidar_to_sensor_transform = [- 1, 0, 0, 36]\<rparr>"

definition example_world :: world where
  "example_world = \<lparr>handshake = (\<lambda>cfg. Some example_metadata), now = 42\<rparr>"

definition example_configuration :: configuration where
  "example_configuration =
     \<lparr>lidar_ip = ''10.5.5.87'', computer_ip = ''10.5.5.1'', imu_port = 7503,
      lidar_port = 7502, lidar_mode = ''512x10''\<rparr>"

text \<open>A driver as configure is meant to leave it: Inactive, publishers and services
  created, sensor connected, broadcaster created. The second is the same driver after
  activation.\<close>

definition example_inactive :: driver where
  "example_inactive = (LifecycleInterface ''OusterDriver'' launch_options)
     \<lparr>lifecycle := Inactive,
      range_im_pub := Some (create_publisher ''range_image'' SensorDataQoS),
      intensity_im_pub := Some (create_publisher ''intensity_image'' SensorDataQoS),
      noise_im_pub := Some (create_publisher ''noise_image'' SensorDataQoS),
      imu_pub := Some (create_publisher ''imu'' SensorDataQoS),
      pc_pub := Some (create_publisher ''points'' SensorDataQoS),
      reset_srv := Some ''reset'', metadata_srv := Some ''get_metadata'',
      sensor := Some (Connected example_configuration example_metadata),
      tf_b := Some StaticTransformBroadcaster\<rparr>"

definition example_active :: driver where
  "example_active = example_inactive
     \<lparr>lifecycle := Active,
      range_im_pub := Some (on_activate (create_publisher ''range_image'' SensorDataQoS)),
      intensity_im_pub := Some (on_activate (create_publisher ''intensity_image'' SensorDataQoS)),
      noise_im_pub := Some (on_activate (create_publisher ''noise_image'' SensorDataQoS)),
      imu_pub := Some (on_activate (create_publisher ''imu'' SensorDataQoS)),
      pc_pub := Some (on_activate (create_publisher ''points'' SensorDataQoS)),
      process_timer := Some 781250\<rparr>"

text \<open>An unconfigured driver on which the three parameter names read by
  \<^verbatim>\<open>broadcastStaticTransforms\<close> have been declared and set.\<close>

definition example_frames_declared :: driver where
  "example_frames_declared = (LifecycleInterface ''OusterDriver'' default_options)
     \<lparr>parameters := [''laser_sensor_frame'' \<mapsto> PString ''base'',
                     ''laser_data_frame'' \<mapsto> PString ''laser'',
                     ''imu_data_frame'' \<mapsto> PString ''imu'']\<rparr>"

section \<open>Properties\<close>

subsection \<open>Sequencing\<close>

lemma then_do_Returns:
  "then_do x k = Returns s' \<Longrightarrow> \<exists>s. x = Returns s \<and> k s = Returns s'"
  by (cases x) simp_all

lemma then_do_not_Exits:
  "x \<noteq> Exits c s' \<Longrightarrow> (\<And>s. k s \<noteq> Exits c s') \<Longrightarrow> then_do x k \<noteq> Exits c s'"
  by (cases x) simp_all

lemma reading_Returns:
  "reading s x k = Returns s' \<Longrightarrow> \<exists>v. x = Inr v \<and> k v = Returns s'"
  by (cases x) simp_all

lemma reading_final:
  "(\<And>v. final (k v) = s) \<Longrightarrow> final (reading s x k) = s"
  by (cases x) simp_all

lemma reading_raised:
  "x \<noteq> Inl e \<Longrightarrow> (\<And>v. raised (k v) \<noteq> Some e) \<Longrightarrow> raised (reading s x k) \<noteq> Some e"
  by (cases x) simp_all

lemma reading_exited:
  "(\<And>v. exited (k v) = None) \<Longrightarrow> exited (reading s x k) = None"
  by (cases x) simp_all

lemma call_pub_Returns:
  "call_pub m u f d = Returns d' \<Longrightarrow> \<exists>p. m d = Some p \<and> d' = u (\<lambda>_. Some (f p)) d"
  by (auto simp: call_pub_def split: option.splits)

lemma processData_funpow: "(processData ^^ n) d = d"
  by (induction n) (simp_all add: processData_def)

subsection \<open>Parameters\<close>

lemma get_parameter_undeclared:
  "parameters d name = None \<Longrightarrow> and_then (get_parameter d name) as_string = Inl
     (if allow_undeclared_parameters (options d) then ParameterTypeException
      else ParameterNotDeclared name)"
  by (simp add: get_parameter_def)

lemma get_parameter_string_no_null:
  "and_then (get_parameter d name) as_string \<noteq> Inl NullPointer"
proof (cases "get_parameter d name")
  case (Inl e)
  then have "e = ParameterNotDeclared name"
    by (auto simp: get_parameter_def Let_def split: option.splits pvalue.splits if_splits)
  with Inl show ?thesis by simp
next
  case (Inr v)
  then show ?thesis by (cases v) simp_all
qed

lemma declare_parameter_Returns:
  "declare_parameter d name v = Returns d' \<Longrightarrow>
     parameters d name = None \<and> options d' = options d
     \<and> parameters d' = (parameters d)(name \<mapsto> initial_value d name v)"
  by (auto simp: declare_parameter_def split: option.splits)

lemma declare_parameter_typed_Returns:
  "declare_parameter_typed d name v = Returns d' \<Longrightarrow>
     parameters d name = None \<and> options d' = options d
     \<and> parameters d' = (parameters d)(name \<mapsto> initial_value d name v)"
  unfolding declare_parameter_typed_def
  by (auto dest!: then_do_Returns declare_parameter_Returns split: option.splits if_splits)

lemma declare_parameter_typed_not_Exits:
  "declare_parameter_typed d name v \<noteq> Exits c d'"
  by (simp add: declare_parameter_typed_def declare_parameter_def split: option.splits)

subsection \<open>The constructor\<close>

text \<open>A constructor that returns has declared exactly its eight parameters (unless the
  node also declared its overrides by itself): none of them is called
  \<^verbatim>\<open>laser_sensor_frame\<close>, \<^verbatim>\<open>laser_data_frame\<close> or \<^verbatim>\<open>imu_data_frame\<close>.\<close>

lemma OusterDriver_Returns:
  assumes "OusterDriver opts = Returns d"
  shows "options d = opts"
    and "\<not> automatically_declare_parameters_from_overrides opts \<Longrightarrow>
           dom (parameters d) = {''lidar_ip'', ''computer_ip'', ''imu_port'', ''lidar_port'',
             ''lidar_mode'', ''sensor_frame'', ''laser_frame'', ''imu_frame''}"
proof -
  from assms obtain d2 where
    a: "then_do (declare_parameter (LifecycleInterface ''OusterDriver'' opts) ''lidar_ip'' NotSet)
             (\<lambda>d. declare_parameter d ''computer_ip'' NotSet) = Returns d2"
    and b: "then_do (declare_parameter_typed d2 ''imu_port'' (PInt 7503)) (\<lambda>d.
          then_do (declare_parameter_typed d ''lidar_port'' (PInt 7502)) (\<lambda>d.
          then_do (declare_parameter_typed d ''lidar_mode'' (PString ''512x10'')) (\<lambda>d.
          then_do (declare_parameter_typed d ''sensor_frame'' (PString ''laser_sensor_frame'')) (\<lambda>d.
          then_do (declare_parameter_typed d ''laser_frame'' (PString ''laser_data_frame'')) (\<lambda>d.
          declare_parameter_typed d ''imu_frame'' (PString ''imu_data_frame'')))))) = Returns d"
    by (auto simp: OusterDriver_def split: outcome.splits)
  from a obtain d1 where
    a1: "declare_parameter (LifecycleInterface ''OusterDriver'' opts) ''lidar_ip'' NotSet = Returns d1"
    and a2: "declare_parameter d1 ''computer_ip'' NotSet = Returns d2"
    by (auto dest!: then_do_Returns)
  from b obtain d3 d4 d5 d6 d7 where
    b1: "declare_parameter_typed d2 ''imu_port'' (PInt 7503) = Returns d3"
    and b2: "declare_parameter_typed d3 ''lidar_port'' (PInt 7502) = Returns d4"
    and b3: "declare_parameter_typed d4 ''lidar_mode'' (PString ''512x10'') = Returns d5"
    and b4: "declare_parameter_typed d5 ''sensor_frame'' (PString ''laser_sensor_frame'') = Returns d6"
    and b5: "declare_parameter_typed d6 ''laser_frame'' (PString ''laser_data_frame'') = Returns d7"
    and b6: "declare_parameter_typed d7 ''imu_frame'' (PString ''imu_data_frame'') = Returns d"
    by (auto dest!: then_do_Returns)
  note r = declare_parameter_Returns [OF a1] declare_parameter_Returns [OF a2]
    declare_parameter_typed_Returns [OF b1] declare_parameter_typed_Returns [OF b2]
    declare_parameter_typed_Returns [OF b3] declare_parameter_typed_Returns [OF b4]
    declare_parameter_typed_Returns [OF b5] declare_parameter_typed_Returns [OF b6]
  have o0: "options (LifecycleInterface ''OusterDriver'' opts) = opts"
    by (simp add: LifecycleInterface_def)
  from r o0 show "options d = opts" by simp
  assume "\<not> automatically_declare_parameters_from_overrides opts"
  then have p0: "dom (parameters (LifecycleInterface ''OusterDriver'' opts)) = {}"
    by (simp add: LifecycleInterface_def)
  have "dom (parameters d) = insert ''imu_frame'' (insert ''laser_frame'' (insert ''sensor_frame''
     (insert ''lidar_mode'' (insert ''lidar_port'' (insert ''imu_port'' (insert ''computer_ip''
     (insert ''lidar_ip'' (dom (parameters (LifecycleInterface ''OusterDriver'' opts))))))))))"
    using r by (simp only: dom_fun_upd option.simps if_False)
  with p0 show "dom (parameters d) = {''lidar_ip'', ''computer_ip'', ''imu_port'', ''lidar_port'',
             ''lidar_mode'', ''sensor_frame'', ''laser_frame'', ''imu_frame''}"
    by (simp only: insert_commute)
qed

text \<open>The fatal exit is not the answer to an unset address: with neither address given,
  the constructor never exits, whatever the other options are.\<close>

lemma unset_addresses_never_exit:
  assumes "parameter_overrides opts ''lidar_ip'' = None"
    and "parameter_overrides opts ''computer_ip'' = None"
  shows "exited (OusterDriver opts) = None"
proof -
  have a: "then_do (declare_parameter (LifecycleInterface ''OusterDriver'' opts) ''lidar_ip'' NotSet)
             (\<lambda>d. declare_parameter d ''computer_ip'' NotSet)
       = Returns ((LifecycleInterface ''OusterDriver'' opts)
            \<lparr>parameters := (parameters (LifecycleInterface ''OusterDriver'' opts))
               (''lidar_ip'' \<mapsto> NotSet, ''computer_ip'' \<mapsto> NotSet)\<rparr>)"
    using assms by (simp add: declare_parameter_def initial_value_def LifecycleInterface_def)
  have "\<And>c d'. OusterDriver opts \<noteq> Exits c d'"
    unfolding OusterDriver_def a outcome.case
    by (intro then_do_not_Exits declare_parameter_typed_not_Exits)
  then show ?thesis
    by (cases "OusterDriver opts") auto
qed

subsection \<open>Configure and the static transforms\<close>

lemma broadcastStaticTransforms_Returns:
  assumes "broadcastStaticTransforms w d = Returns d'"
  shows "\<exists>fs fl fi.
     and_then (get_parameter d ''laser_sensor_frame'') as_string = Inr fs
     \<and> and_then (get_parameter d ''laser_data_frame'') as_string = Inr fl
     \<and> and_then (get_parameter d ''imu_data_frame'') as_string = Inr fi
     \<and> (case tf_b d of
          None \<Rightarrow> d' = d
        | Some b \<Rightarrow> (\<exists>s m. sensor d = Some s \<and> sensor_getMetadata s = Inr m
            \<and> d' = d\<lparr>tf_sent := tf_sent d @
                 [[toMsg (imu_to_sensor_transform m) fs fi (now w),
                   toMsg (lidar_to_sensor_transform m) fs fl (now w)]]\<rparr>))"
proof -
  from assms obtain fs fl fi where
    r: "and_then (get_parameter d ''laser_sensor_frame'') as_string = Inr fs"
       "and_then (get_parameter d ''laser_data_frame'') as_string = Inr fl"
       "and_then (get_parameter d ''imu_data_frame'') as_string = Inr fi"
    and k: "(case tf_b d of
          None \<Rightarrow> Returns d
        | Some b \<Rightarrow>
            (case sensor d of
               None \<Rightarrow> Throws NullPointer d
             | Some s \<Rightarrow>
                 reading d (sensor_getMetadata s) (\<lambda>mdata.
                   Returns (d\<lparr>tf_sent := tf_sent d @
                     [[toMsg (imu_to_sensor_transform mdata) fs fi (now w),
                       toMsg (lidar_to_sensor_transform mdata) fs fl (now w)]]\<rparr>)))) = Returns d'"
    unfolding broadcastStaticTransforms_def
    by (auto dest!: reading_Returns)
  from k have "(case tf_b d of
          None \<Rightarrow> d' = d
        | Some b \<Rightarrow> (\<exists>s m. sensor d = Some s \<and> sensor_getMetadata s = Inr m
            \<and> d' = d\<lparr>tf_sent := tf_sent d @
                 [[toMsg (imu_to_sensor_transform m) fs fi (now w),
                   toMsg (lidar_to_sensor_transform m) fs fl (now w)]]\<rparr>))"
    by (auto split: option.splits dest!: reading_Returns)
  with r show ?thesis by blast
qed

text \<open>What a configure that returns has done: one handshake, one announcement of two
  transforms, whose frames are the values of the parameters named
  \<^verbatim>\<open>laser_sensor_frame\<close>, \<^verbatim>\<open>laser_data_frame\<close> and \<^verbatim>\<open>imu_data_frame\<close>.\<close>

lemma onConfigure_Returns:
  assumes "onConfigure w d = Returns d'"
  shows "\<exists>fs fl fi cfg m.
     and_then (get_parameter d ''laser_sensor_frame'') as_string = Inr fs
     \<and> and_then (get_parameter d ''laser_data_frame'') as_string = Inr fl
     \<and> and_then (get_parameter d ''imu_data_frame'') as_string = Inr fi
     \<and> handshake w cfg = Some m
     \<and> sensor d' = Some (Connected cfg m)
     \<and> tf_sent d' = tf_sent d @
          [[toMsg (imu_to_sensor_transform m) fs fi (now w),
            toMsg (lidar_to_sensor_transform m) fs fl (now w)]]"
proof -
  from assms obtain ip cip iport lport mode s where
    c0: "sensor_configure w \<lparr>lidar_ip = ip, computer_ip = cip, imu_port = iport,
                            lidar_port = lport, lidar_mode = mode\<rparr> Unconnected = Inr s"
    and b0: "broadcastStaticTransforms w
       (d\<lparr>log := log d @
                   [(INFO, ''Connecting to sensor at '' @ ip @ ''.''),
                    (INFO, ''Broadcasting data from sensor to '' @ cip @ ''.'')],
          range_im_pub := Some (create_publisher ''range_image'' SensorDataQoS),
          intensity_im_pub := Some (create_publisher ''intensity_image'' SensorDataQoS),
          noise_im_pub := Some (create_publisher ''noise_image'' SensorDataQoS),
          imu_pub := Some (create_publisher ''imu'' SensorDataQoS),
          pc_pub := Some (create_publisher ''points'' SensorDataQoS),
          reset_srv := Some ''reset'',
          metadata_srv := Some ''get_metadata'',
          sensor := Some Unconnected,
          sensor := Some s, tf_b := Some StaticTransformBroadcaster\<rparr>) = Returns d'"
    unfolding onConfigure_def Let_def
    by (auto dest!: reading_Returns)
  define cfg where "cfg = \<lparr>lidar_ip = ip, computer_ip = cip, imu_port = iport,
                            lidar_port = lport, lidar_mode = mode\<rparr>"
  define d3 where "d3 = d\<lparr>log := log d @
                   [(INFO, ''Connecting to sensor at '' @ ip @ ''.''),
                    (INFO, ''Broadcasting data from sensor to '' @ cip @ ''.'')],
          range_im_pub := Some (create_publisher ''range_image'' SensorDataQoS),
          intensity_im_pub := Some (create_publisher ''intensity_image'' SensorDataQoS),
          noise_im_pub := Some (create_publisher ''noise_image'' SensorDataQoS),
          imu_pub := Some (create_publisher ''imu'' SensorDataQoS),
          pc_pub := Some (create_publisher ''points'' SensorDataQoS),
          reset_srv := Some ''reset'',
          metadata_srv := Some ''get_metadata'',
          sensor := Some Unconnected\<rparr>"
  have c: "sensor_configure w cfg Unconnected = Inr s"
    using c0 by (simp add: cfg_def)
  have d3: "parameters d3 = parameters d" "options d3 = options d" "tf_sent d3 = tf_sent d"
    by (simp_all add: d3_def)
  have b: "broadcastStaticTransforms w
               (d3\<lparr>sensor := Some s, tf_b := Some StaticTransformBroadcaster\<rparr>) = Returns d'"
    using b0 by (simp add: d3_def)
  from c obtain m where m: "handshake w cfg = Some m" "s = Connected cfg m"
    by (auto simp: sensor_configure_def split: option.splits)
  let ?d4 = "d3\<lparr>sensor := Some s, tf_b := Some StaticTransformBroadcaster\<rparr>"
  have g: "get_parameter ?d4 = get_parameter d"
    by (rule ext) (simp add: get_parameter_def d3)
  from broadcastStaticTransforms_Returns [OF b] g d3 m show ?thesis
    by auto
qed

text \<open>On a driver built by the constructor, configure cannot return: the three names it
  looks up for the frames were never declared.\<close>

lemma constructed_configure_never_returns:
  assumes "OusterDriver opts = Returns d"
    and "\<not> automatically_declare_parameters_from_overrides opts"
  shows "\<not> returns (onConfigure w d)"
proof
  assume "returns (onConfigure w d)"
  then obtain d' where "onConfigure w d = Returns d'"
    by (cases "onConfigure w d") simp_all
  from onConfigure_Returns [OF this] obtain fs where
    fs: "and_then (get_parameter d ''laser_sensor_frame'') as_string = Inr fs"
    by blast
  have "''laser_sensor_frame'' \<notin> dom (parameters d)"
    by (simp add: OusterDriver_Returns(2) [OF assms])
  then have "parameters d ''laser_sensor_frame'' = None"
    by blast
  from get_parameter_undeclared [OF this] fs show False
    by simp
qed

subsection \<open>Activation and deactivation\<close>

lemma onActivate_effect:
  "onActivate d = Returns d' \<Longrightarrow>
     d' = d\<lparr>range_im_pub := map_option on_activate (range_im_pub d),
            intensity_im_pub := map_option on_activate (intensity_im_pub d),
            noise_im_pub := map_option on_activate (noise_im_pub d),
            pc_pub := map_option on_activate (pc_pub d),
            imu_pub := map_option on_activate (imu_pub d),
            process_timer := Some 781250\<rparr>
     \<and> range_im_pub d \<noteq> None \<and> intensity_im_pub d \<noteq> None \<and> noise_im_pub d \<noteq> None
     \<and> pc_pub d \<noteq> None \<and> imu_pub d \<noteq> None"
  unfolding onActivate_def
  by (auto dest!: then_do_Returns call_pub_Returns simp: create_wall_timer_def)

lemma onDeactivate_effect:
  "onDeactivate d = Returns d' \<Longrightarrow>
     d' = d\<lparr>range_im_pub := map_option on_deactivate (range_im_pub d),
            intensity_im_pub := map_option on_deactivate (intensity_im_pub d),
            noise_im_pub := map_option on_deactivate (noise_im_pub d),
            pc_pub := map_option on_deactivate (pc_pub d),
            imu_pub := map_option on_deactivate (imu_pub d),
            process_timer := None\<rparr>
     \<and> range_im_pub d \<noteq> None \<and> intensity_im_pub d \<noteq> None \<and> noise_im_pub d \<noteq> None
     \<and> pc_pub d \<noteq> None \<and> imu_pub d \<noteq> None"
  unfolding onDeactivate_def
  by (auto dest!: then_do_Returns call_pub_Returns)

lemma onActivate_returns:
  "range_im_pub d \<noteq> None \<Longrightarrow> intensity_im_pub d \<noteq> None \<Longrightarrow> noise_im_pub d \<noteq> None \<Longrightarrow>
   pc_pub d \<noteq> None \<Longrightarrow> imu_pub d \<noteq> None \<Longrightarrow> \<exists>d'. onActivate d = Returns d'"
  by (auto simp: onActivate_def call_pub_def)

lemma onDeactivate_returns:
  "range_im_pub d \<noteq> None \<Longrightarrow> intensity_im_pub d \<noteq> None \<Longrightarrow> noise_im_pub d \<noteq> None \<Longrightarrow>
   pc_pub d \<noteq> None \<Longrightarrow> imu_pub d \<noteq> None \<Longrightarrow> \<exists>d'. onDeactivate d = Returns d'"
  by (auto simp: onDeactivate_def call_pub_def)

lemma armed_on_activate: "p \<noteq> None \<Longrightarrow> armed (map_option on_activate p)"
  by (cases p) (simp_all add: armed_def on_activate_def)

lemma disarmed_on_deactivate: "p \<noteq> None \<Longrightarrow> disarmed (map_option on_deactivate p)"
  by (cases p) (simp_all add: disarmed_def on_deactivate_def)

section \<open>The claims\<close>

subsection \<open>Services outside the Active state\<close>

text \<open>C1. While the lifecycle state is not Active, the reset service and the
  get-metadata service return at once: nothing is raised, the driver state is the one
  before the call (so the sensor took part in no new handshake), and the response is
  the one passed in, unwritten. This covers reset in the Inactive and in the
  Unconfigured state.\<close>

theorem services_silent_unless_active:
  "\<not> isActive d \<Longrightarrow>
     resetService w d request response = Returns (d, response)
     \<and> getMetadata d request' response' = Returns (d, response')"
  by (simp add: resetService_def getMetadata_def)

theorem services_silent_unless_active_witness:
  "\<not> isActive example_inactive
   \<and> resetService example_world example_inactive () () = Returns (example_inactive, ())
   \<and> getMetadata example_inactive () \<lparr>metadata_payload = None\<rparr>
       = Returns (example_inactive, \<lparr>metadata_payload = None\<rparr>)
   \<and> \<not> isActive (LifecycleInterface ''OusterDriver'' default_options)
   \<and> resetService example_world (LifecycleInterface ''OusterDriver'' default_options) () ()
       = Returns (LifecycleInterface ''OusterDriver'' default_options, ())"
proof -
  have h: "\<not> isActive example_inactive"
    by (simp add: isActive_def example_inactive_def)
  have u: "\<not> isActive (LifecycleInterface ''OusterDriver'' default_options)"
    by (simp add: isActive_def LifecycleInterface_def)
  from services_silent_unless_active [OF h, of example_world "()" "()" "()" "\<lparr>metadata_payload = None\<rparr>"]
    services_silent_unless_active [OF u, of example_world "()" "()" "()" "\<lparr>metadata_payload = None\<rparr>"]
  show ?thesis using h u by simp
qed

subsection \<open>Configure\<close>

text \<open>C2. A successful configure is to announce the static transforms once: two
  transforms taken from the handshake's metadata, sensor frame to laser data frame and
  sensor frame to IMU data frame, under the configured frame identifiers, which the
  constructor declares as \<^verbatim>\<open>sensor_frame\<close>, \<^verbatim>\<open>laser_frame\<close> and \<^verbatim>\<open>imu_frame\<close>.
  The code at a node launched with both addresses: the constructor returns with the
  three frame parameters at their defaults; configure connects the sensor, creates the
  broadcaster, then asks for a parameter called \<^verbatim>\<open>laser_sensor_frame\<close>, which was
  never declared, and throws with nothing announced.\<close>

theorem configure_reads_undeclared_frame_names:
  "returns (OusterDriver launch_options)
   \<and> parameters (final (OusterDriver launch_options)) ''sensor_frame''
       = Some (PString ''laser_sensor_frame'')
   \<and> parameters (final (OusterDriver launch_options)) ''laser_frame''
       = Some (PString ''laser_data_frame'')
   \<and> parameters (final (OusterDriver launch_options)) ''imu_frame''
       = Some (PString ''imu_data_frame'')
   \<and> parameters (final (OusterDriver launch_options)) ''laser_sensor_frame'' = None
   \<and> raised (onConfigure example_world (final (OusterDriver launch_options)))
       = Some (ParameterNotDeclared ''laser_sensor_frame'')
   \<and> sensor (final (onConfigure example_world (final (OusterDriver launch_options))))
       = Some (Connected example_configuration example_metadata)
   \<and> tf_b (final (onConfigure example_world (final (OusterDriver launch_options))))
       = Some StaticTransformBroadcaster
   \<and> tf_sent (final (onConfigure example_world (final (OusterDriver launch_options)))) = []"
  by (simp add: OusterDriver_def LifecycleInterface_def declare_parameter_def
        declare_parameter_typed_def initial_value_def launch_options_def onConfigure_def get_parameter_def
        broadcastStaticTransforms_def sensor_configure_def example_world_def
        example_configuration_def)

text \<open>C3. With \<^verbatim>\<open>lidar_ip\<close> (or \<^verbatim>\<open>computer_ip\<close>) unset the driver is to log a fatal
  diagnostic and end the process before any socket is opened. The code at a node
  with no address given: declaring the two parameters does not throw, so the
  constructor returns with both addresses declared and unset and with an empty log;
  the following configure throws at its first parameter read, with no sensor handle
  made and still nothing logged.\<close>

theorem constructor_accepts_unset_addresses:
  "returns (OusterDriver default_options)
   \<and> exited (OusterDriver default_options) = None
   \<and> log (final (OusterDriver default_options)) = []
   \<and> parameters (final (OusterDriver default_options)) ''lidar_ip'' = Some NotSet
   \<and> parameters (final (OusterDriver default_options)) ''computer_ip'' = Some NotSet
   \<and> raised (onConfigure example_world (final (OusterDriver default_options)))
       = Some (ParameterNotDeclared ''lidar_ip'')
   \<and> exited (onConfigure example_world (final (OusterDriver default_options))) = None
   \<and> log (final (onConfigure example_world (final (OusterDriver default_options)))) = []
   \<and> sensor (final (onConfigure example_world (final (OusterDriver default_options)))) = None"
  by (simp add: OusterDriver_def LifecycleInterface_def declare_parameter_def
        declare_parameter_typed_def initial_value_def default_options_def onConfigure_def get_parameter_def)

subsection \<open>Activate and deactivate\<close>

text \<open>C4. On a driver whose five publishers exist, activate returns, every one of the
  five publishers is armed, and the timer of the poll/process cycle is created with a
  period of 781250 nanoseconds, which is exactly one 1280th of a second; nothing else
  in the driver changes.\<close>

theorem onActivate_arms_and_starts_timer:
  assumes "range_im_pub d \<noteq> None" and "intensity_im_pub d \<noteq> None"
    and "noise_im_pub d \<noteq> None" and "pc_pub d \<noteq> None" and "imu_pub d \<noteq> None"
  shows "returns (onActivate d)
     \<and> armed (range_im_pub (final (onActivate d)))
     \<and> armed (intensity_im_pub (final (onActivate d)))
     \<and> armed (noise_im_pub (final (onActivate d)))
     \<and> armed (imu_pub (final (onActivate d)))
     \<and> armed (pc_pub (final (onActivate d)))
     \<and> process_timer (final (onActivate d)) = Some 781250
     \<and> 1280 * 781250 = (1000000000 :: nat)
     \<and> final (onActivate d) =
         d\<lparr>range_im_pub := map_option on_activate (range_im_pub d),
           intensity_im_pub := map_option on_activate (intensity_im_pub d),
           noise_im_pub := map_option on_activate (noise_im_pub d),
           pc_pub := map_option on_activate (pc_pub d),
           imu_pub := map_option on_activate (imu_pub d),
           process_timer := Some 781250\<rparr>"
proof -
  from onActivate_returns [OF assms] obtain d' where r: "onActivate d = Returns d'"
    by blast
  from onActivate_effect [OF r] have e: "d' =
         d\<lparr>range_im_pub := map_option on_activate (range_im_pub d),
           intensity_im_pub := map_option on_activate (intensity_im_pub d),
           noise_im_pub := map_option on_activate (noise_im_pub d),
           pc_pub := map_option on_activate (pc_pub d),
           imu_pub := map_option on_activate (imu_pub d),
           process_timer := Some 781250\<rparr>"
    by blast
  show ?thesis
    by (simp only: r final.simps returns.simps) (simp add: e assms armed_on_activate)
qed

theorem onActivate_arms_and_starts_timer_witness:
  "range_im_pub example_inactive \<noteq> None \<and> intensity_im_pub example_inactive \<noteq> None
   \<and> noise_im_pub example_inactive \<noteq> None \<and> pc_pub example_inactive \<noteq> None
   \<and> imu_pub example_inactive \<noteq> None
   \<and> returns (onActivate example_inactive)
   \<and> armed (range_im_pub (final (onActivate example_inactive)))
   \<and> armed (pc_pub (final (onActivate example_inactive)))
   \<and> process_timer (final (onActivate example_inactive)) = Some 781250"
proof -
  have h: "range_im_pub example_inactive \<noteq> None" "intensity_im_pub example_inactive \<noteq> None"
    "noise_im_pub example_inactive \<noteq> None" "pc_pub example_inactive \<noteq> None"
    "imu_pub example_inactive \<noteq> None"
    by (simp_all add: example_inactive_def)
  from onActivate_arms_and_starts_timer [OF h] h show ?thesis
    by blast
qed

text \<open>C5. On a driver whose five publishers exist, deactivate returns, every one of the
  five publishers is disarmed and the timer is dropped, which stops the periodic
  cycle. The sensor connection and the metadata it holds are the ones from before, and
  so is every other field of the driver: putting the publishers and the timer back
  gives the state before the call.\<close>

theorem onDeactivate_disarms_and_keeps_connection:
  assumes "range_im_pub d \<noteq> None" and "intensity_im_pub d \<noteq> None"
    and "noise_im_pub d \<noteq> None" and "pc_pub d \<noteq> None" and "imu_pub d \<noteq> None"
  shows "returns (onDeactivate d)
     \<and> disarmed (range_im_pub (final (onDeactivate d)))
     \<and> disarmed (intensity_im_pub (final (onDeactivate d)))
     \<and> disarmed (noise_im_pub (final (onDeactivate d)))
     \<and> disarmed (imu_pub (final (onDeactivate d)))
     \<and> disarmed (pc_pub (final (onDeactivate d)))
     \<and> process_timer (final (onDeactivate d)) = None
     \<and> sensor (final (onDeactivate d)) = sensor d
     \<and> held_metadata (final (onDeactivate d)) = held_metadata d
     \<and> (final (onDeactivate d))
          \<lparr>range_im_pub := range_im_pub d, intensity_im_pub := intensity_im_pub d,
           noise_im_pub := noise_im_pub d, pc_pub := pc_pub d, imu_pub := imu_pub d,
           process_timer := process_timer d\<rparr> = d"
proof -
  from onDeactivate_returns [OF assms] obtain d' where r: "onDeactivate d = Returns d'"
    by blast
  from onDeactivate_effect [OF r] have e: "d' =
         d\<lparr>range_im_pub := map_option on_deactivate (range_im_pub d),
           intensity_im_pub := map_option on_deactivate (intensity_im_pub d),
           noise_im_pub := map_option on_deactivate (noise_im_pub d),
           pc_pub := map_option on_deactivate (pc_pub d),
           imu_pub := map_option on_deactivate (imu_pub d),
           process_timer := None\<rparr>"
    by blast
  show ?thesis
    by (simp only: r final.simps returns.simps)
      (simp add: e assms disarmed_on_deactivate held_metadata_def)
qed

theorem onDeactivate_disarms_and_keeps_connection_witness:
  "range_im_pub example_active \<noteq> None \<and> intensity_im_pub example_active \<noteq> None
   \<and> noise_im_pub example_active \<noteq> None \<and> pc_pub example_active \<noteq> None
   \<and> imu_pub example_active \<noteq> None
   \<and> returns (onDeactivate example_active)
   \<and> disarmed (range_im_pub (final (onDeactivate example_active)))
   \<and> process_timer example_active = Some 781250
   \<and> process_timer (final (onDeactivate example_active)) = None
   \<and> sensor (final (onDeactivate example_active))
       = Some (Connected example_configuration example_metadata)
   \<and> held_metadata (final (onDeactivate example_active)) = Some example_metadata"
proof -
  have h: "range_im_pub example_active \<noteq> None" "intensity_im_pub example_active \<noteq> None"
    "noise_im_pub example_active \<noteq> None" "pc_pub example_active \<noteq> None"
    "imu_pub example_active \<noteq> None"
    by (simp_all add: example_active_def)
  have s: "sensor example_active = Some (Connected example_configuration example_metadata)"
    "process_timer example_active = Some 781250"
    by (simp_all add: example_active_def example_inactive_def)
  from onDeactivate_disarms_and_keeps_connection [OF h] h s show ?thesis
    by (simp add: held_metadata_def)
qed

subsection \<open>Cleanup\<close>

text \<open>C6. Cleanup returns with the sensor connection released, and with it the
  metadata it held, with each of the five publishers released and with the transform
  broadcaster released: these resources are what they are in a driver that was never
  configured.\<close>

theorem onCleanup_releases:
  "returns (onCleanup d)
   \<and> sensor (final (onCleanup d)) = None
   \<and> held_metadata (final (onCleanup d)) = None
   \<and> range_im_pub (final (onCleanup d)) = None
   \<and> intensity_im_pub (final (onCleanup d)) = None
   \<and> noise_im_pub (final (onCleanup d)) = None
   \<and> imu_pub (final (onCleanup d)) = None
   \<and> pc_pub (final (onCleanup d)) = None
   \<and> tf_b (final (onCleanup d)) = None
   \<and> resources (final (onCleanup d)) = resources (LifecycleInterface node_name opts)"
  by (simp add: onCleanup_def resources_def held_metadata_def LifecycleInterface_def)

subsection \<open>Activate, run, deactivate\<close>

text \<open>C7. Take an activate that returns, any number of timer callbacks after it, and
  then a deactivate that returns. After each of the callbacks, and after the
  deactivate, the data products handed to the five publishers are those from before
  the activate: none was published. The sensor connection after the deactivate is the
  one from before the activate.\<close>

theorem activate_deactivate_publishes_nothing:
  "onActivate d = Returns d1 \<Longrightarrow> onDeactivate ((processData ^^ n) d1) = Returns d2 \<Longrightarrow>
     (\<forall>k\<le>n. published ((processData ^^ k) d1) = published d)
     \<and> published d2 = published d \<and> sensor d2 = sensor d"
proof -
  assume a: "onActivate d = Returns d1"
    and b: "onDeactivate ((processData ^^ n) d1) = Returns d2"
  from onActivate_effect [OF a] have 1: "published d1 = published d" "sensor d1 = sensor d"
    by (elim conjE, simp)+
  from b have "onDeactivate d1 = Returns d2"
    by (simp add: processData_funpow)
  from onDeactivate_effect [OF this] have 2: "published d2 = published d1" "sensor d2 = sensor d1"
    by (elim conjE, simp)+
  from 1 2 show ?thesis
    by (simp add: processData_funpow)
qed

theorem activate_deactivate_publishes_nothing_witness:
  "onActivate example_inactive = Returns (final (onActivate example_inactive))
   \<and> onDeactivate ((processData ^^ 3) (final (onActivate example_inactive)))
       = Returns (final (onDeactivate (final (onActivate example_inactive))))
   \<and> published (final (onDeactivate (final (onActivate example_inactive)))) = []
   \<and> sensor (final (onDeactivate (final (onActivate example_inactive))))
       = Some (Connected example_configuration example_metadata)"
proof -
  have h: "range_im_pub example_inactive \<noteq> None" "intensity_im_pub example_inactive \<noteq> None"
    "noise_im_pub example_inactive \<noteq> None" "pc_pub example_inactive \<noteq> None"
    "imu_pub example_inactive \<noteq> None"
    by (simp_all add: example_inactive_def)
  from onActivate_returns [OF h]
  have a: "onActivate example_inactive = Returns (final (onActivate example_inactive))"
    by auto
  from onActivate_effect [OF a]
  have e: "final (onActivate example_inactive) =
      example_inactive\<lparr>range_im_pub := map_option on_activate (range_im_pub example_inactive),
        intensity_im_pub := map_option on_activate (intensity_im_pub example_inactive),
        noise_im_pub := map_option on_activate (noise_im_pub example_inactive),
        pc_pub := map_option on_activate (pc_pub example_inactive),
        imu_pub := map_option on_activate (imu_pub example_inactive),
        process_timer := Some 781250\<rparr>"
    by blast
  have "range_im_pub (final (onActivate example_inactive)) \<noteq> None"
    "intensity_im_pub (final (onActivate example_inactive)) \<noteq> None"
    "noise_im_pub (final (onActivate example_inactive)) \<noteq> None"
    "pc_pub (final (onActivate example_inactive)) \<noteq> None"
    "imu_pub (final (onActivate example_inactive)) \<noteq> None"
    unfolding e by (simp_all add: h)
  from onDeactivate_returns [OF this]
  have "onDeactivate (final (onActivate example_inactive))
       = Returns (final (onDeactivate (final (onActivate example_inactive))))"
    by auto
  then have b: "onDeactivate ((processData ^^ 3) (final (onActivate example_inactive)))
       = Returns (final (onDeactivate (final (onActivate example_inactive))))"
    by (simp only: processData_funpow)
  have c: "published example_inactive = []"
    "sensor example_inactive = Some (Connected example_configuration example_metadata)"
    by (simp_all add: example_inactive_def LifecycleInterface_def)
  from activate_deactivate_publishes_nothing [OF a b] a b c show ?thesis
    by simp
qed

subsection \<open>Shutdown\<close>

text \<open>C8, as amended. The shutdown callback releases nothing: from any state it
  returns with the driver exactly as it was, so the sensor connection, the metadata,
  the publishers and the transform broadcaster are released after shutdown only where
  they were released before it.\<close>

theorem onShutdown_changes_nothing:
  "returns (onShutdown d) \<and> final (onShutdown d) = d
   \<and> resources (final (onShutdown d)) = resources d
   \<and> held_metadata (final (onShutdown d)) = held_metadata d"
  by (simp add: onShutdown_def)

text \<open>C8, as stated, fails: shutdown of a configured, inactive driver leaves the
  sensor connected and the broadcaster and the publishers in place.\<close>

theorem onShutdown_releases_counterexample:
  "\<not> (sensor (final (onShutdown example_inactive)) = None
      \<and> tf_b (final (onShutdown example_inactive)) = None
      \<and> range_im_pub (final (onShutdown example_inactive)) = None
      \<and> intensity_im_pub (final (onShutdown example_inactive)) = None
      \<and> noise_im_pub (final (onShutdown example_inactive)) = None
      \<and> imu_pub (final (onShutdown example_inactive)) = None
      \<and> pc_pub (final (onShutdown example_inactive)) = None)"
  by (simp add: onShutdown_def example_inactive_def)

subsection \<open>The timer callback\<close>

text \<open>C9. Every run of \<^verbatim>\<open>processData\<close>, in any lifecycle state and after any number
  of earlier runs, leaves the whole driver state as it was (publishers, sensor handle,
  transform broadcaster, timer) and hands no data product to a publisher.\<close>

theorem processData_noop:
  "processData d = d \<and> (processData ^^ n) d = d
   \<and> published ((processData ^^ n) d) = published d
   \<and> tf_sent ((processData ^^ n) d) = tf_sent d"
proof -
  have "(processData ^^ n) d = d"
    by (induction n) (simp_all add: processData_def)
  then show ?thesis by (simp add: processData_def)
qed

subsection \<open>The guard of the announcement\<close>

text \<open>C10. When the transform broadcaster has not been created,
  \<^verbatim>\<open>broadcastStaticTransforms\<close> sends nothing: however the call ends, the driver and
  the transforms sent are as before, no null handle is called through, and the process
  does not exit.\<close>

theorem broadcast_guarded_by_handle:
  assumes "tf_b d = None"
  shows "final (broadcastStaticTransforms w d) = d
     \<and> tf_sent (final (broadcastStaticTransforms w d)) = tf_sent d
     \<and> raised (broadcastStaticTransforms w d) \<noteq> Some NullPointer
     \<and> exited (broadcastStaticTransforms w d) = None"
proof -
  have 1: "final (broadcastStaticTransforms w d) = d"
    unfolding broadcastStaticTransforms_def
    by (intro reading_final) (simp add: assms)
  have 2: "raised (broadcastStaticTransforms w d) \<noteq> Some NullPointer"
    unfolding broadcastStaticTransforms_def
    by (intro reading_raised get_parameter_string_no_null) (simp add: assms)
  have 3: "exited (broadcastStaticTransforms w d) = None"
    unfolding broadcastStaticTransforms_def
    by (intro reading_exited) (simp add: assms)
  from 1 2 3 show ?thesis by simp
qed

theorem broadcast_guarded_by_handle_witness:
  "tf_b example_frames_declared = None
   \<and> broadcastStaticTransforms example_world example_frames_declared
       = Returns example_frames_declared
   \<and> tf_sent (final (broadcastStaticTransforms example_world example_frames_declared)) = []
   \<and> tf_b (final (onCleanup example_inactive)) = None
   \<and> final (broadcastStaticTransforms example_world (final (onCleanup example_inactive)))
       = final (onCleanup example_inactive)"
proof -
  have h: "tf_b example_frames_declared = None"
    by (simp add: example_frames_declared_def LifecycleInterface_def)
  have c: "tf_b (final (onCleanup example_inactive)) = None"
    by (simp add: onCleanup_def)
  have r: "returns (broadcastStaticTransforms example_world example_frames_declared)"
    by (simp add: broadcastStaticTransforms_def get_parameter_def
          example_frames_declared_def LifecycleInterface_def default_options_def)
  have t: "tf_sent example_frames_declared = []"
    by (simp add: example_frames_declared_def LifecycleInterface_def)
  from broadcast_guarded_by_handle [OF h, of example_world]
    broadcast_guarded_by_handle [OF c, of example_world] h c r t
  show ?thesis
    by (cases "broadcastStaticTransforms example_world example_frames_declared") simp_all
qed

end
